theory Spec2Isabelle
  imports Main
begin

section \<open>Values, errors and dates\<close>

text \<open>
  The request body reaches \<^verbatim>\<open>validate_payload\<close> as the Python value that the JSON
  decoder built. \<open>pyval\<close> has one constructor per Python type that can occur there, and
  \<open>PDate\<close> for the \<^verbatim>\<open>datetime.date\<close> that validation puts into its output. A float
  is kept as mantissa and binary exponent; the code only ever tests its type.
  A Python \<^verbatim>\<open>dict\<close> with string keys is a map from \<open>string\<close>; inside a value it is the
  list of its items. Strings are over the characters 0..255.
\<close>

record pydate =
  year :: nat
  month :: nat
  day :: nat

datatype pyval =
    PNone
  | PBool bool
  | PInt int
  | PFloat int int
  | PStr string
  | PList "pyval list"
  | PDict "(string \<times> pyval) list"
  | PDate pydate

type_synonym dict = "string \<rightharpoonup> pyval"

text \<open>
  \<^verbatim>\<open>abort(400, description=...)\<close> and \<^verbatim>\<open>abort(404, description=...)\<close> raise an HTTP
  exception that carries the description; an exception that no handler catches
  becomes a 500 response.
\<close>

datatype error =
    BadRequest string
  | NotFound string
  | InternalServerError string

section \<open>Library functions the validation calls\<close>

subsection \<open>\<^verbatim>\<open>str.strip\<close>\<close>

text \<open>
  \<^verbatim>\<open>str.isspace\<close> for a character below 256 holds for the codes 9 to 13, 28 to 32,
  133 and 160; \<^verbatim>\<open>str.strip()\<close> removes such characters from both ends.
\<close>

definition isspace :: "char \<Rightarrow> bool" where
  "isspace c =
     (let n = (of_char c :: nat)
      in (9 \<le> n \<and> n \<le> 13) \<or> (28 \<le> n \<and> n \<le> 32) \<or> n = 133 \<or> n = 160)"

definition strip :: "string \<Rightarrow> string" where
  "strip s = rev (dropWhile isspace (rev (dropWhile isspace s)))"

subsection \<open>\<^verbatim>\<open>isinstance\<close>\<close>

text \<open>
  \<^verbatim>\<open>bool\<close> is a subclass of \<^verbatim>\<open>int\<close>: \<^verbatim>\<open>isinstance(True, int)\<close> is true, and in a
  comparison \<^verbatim>\<open>True\<close> is 1 and \<^verbatim>\<open>False\<close> is 0.
\<close>

fun isinstance_str :: "pyval \<Rightarrow> bool" where
  "isinstance_str (PStr s) = True"
| "isinstance_str v = False"

fun isinstance_int :: "pyval \<Rightarrow> bool" where
  "isinstance_int (PInt n) = True"
| "isinstance_int (PBool b) = True"
| "isinstance_int v = False"

fun int_value :: "pyval \<Rightarrow> int" where
  "int_value (PInt n) = n"
| "int_value (PBool b) = (if b then 1 else 0)"
| "int_value v = 0"

fun str_value :: "pyval \<Rightarrow> string" where
  "str_value (PStr s) = s"
| "str_value v = []"

subsection \<open>\<^verbatim>\<open>datetime.fromisoformat\<close> and \<^verbatim>\<open>date.isoformat\<close>\<close>

text \<open>
  \<^verbatim>\<open>datetime.fromisoformat\<close> is the standard library's. Its documented input is
  \<^verbatim>\<open>YYYY-MM-DD[*HH[:MM[:SS[.fff[fff]]]][+HH:MM[:SS[.ffffff]]]]\<close>, where \<^verbatim>\<open>*\<close> is any
  single character and the sign of the offset is \<^verbatim>\<open>+\<close> or \<^verbatim>\<open>-\<close>; the constructor of
  \<^verbatim>\<open>datetime\<close> then checks the ranges of the fields and raises \<^verbatim>\<open>ValueError\<close> like
  the parser does. The model accepts exactly these strings. \<open>None\<close> is the
  \<^verbatim>\<open>ValueError\<close>.
\<close>

record pydatetime =
  dt_date :: pydate
  dt_hour :: nat
  dt_minute :: nat
  dt_second :: nat
  dt_microsecond :: nat
  dt_utcoffset :: "int option"

definition digit :: "char \<Rightarrow> nat option" where
  "digit c =
     (let n = (of_char c :: nat)
      in if 48 \<le> n \<and> n \<le> 57 then Some (n - 48) else None)"

fun digits_acc :: "nat \<Rightarrow> string \<Rightarrow> nat option" where
  "digits_acc a [] = Some a"
| "digits_acc a (c # cs) =
     (case digit c of None \<Rightarrow> None | Some d \<Rightarrow> digits_acc (10 * a + d) cs)"

definition parse_digits :: "nat \<Rightarrow> string \<Rightarrow> nat option" where
  "parse_digits n s = (if length s = n then digits_acc 0 s else None)"

definition is_leap :: "nat \<Rightarrow> bool" where
  "is_leap y = (y mod 4 = 0 \<and> (if y mod 100 = 0 then y mod 400 = 0 else True))"

definition days_in_month :: "nat \<Rightarrow> nat \<Rightarrow> nat" where
  "days_in_month y m =
     (if m = 2 then (if is_leap y then 29 else 28)
      else if m = 4 \<or> m = 6 \<or> m = 9 \<or> m = 11 then 30 else 31)"

definition valid_date :: "pydate \<Rightarrow> bool" where
  "valid_date d =
     (1 \<le> year d \<and> year d \<le> 9999 \<and> 1 \<le> month d \<and> month d \<le> 12 \<and>
      1 \<le> day d \<and> day d \<le> days_in_month (year d) (month d))"

definition parse_isoformat_date :: "string \<Rightarrow> pydate option" where
  "parse_isoformat_date s =
     (if length s \<noteq> 10 then None
      else case parse_digits 4 (take 4 s) of None \<Rightarrow> None | Some y \<Rightarrow>
        if s ! 4 \<noteq> CHR ''-'' then None
        else case parse_digits 2 (take 2 (drop 5 s)) of None \<Rightarrow> None | Some m \<Rightarrow>
          if s ! 7 \<noteq> CHR ''-'' then None
          else case parse_digits 2 (drop 8 s) of None \<Rightarrow> None | Some d \<Rightarrow>
            Some \<lparr>year = y, month = m, day = d\<rparr>)"

text \<open>\<^verbatim>\<open>HH[:MM[:SS[.fff[fff]]]]\<close>: hour, minute, second, microsecond.\<close>

definition parse_hh_mm_ss_ff :: "string \<Rightarrow> (nat \<times> nat \<times> nat \<times> nat) option" where
  "parse_hh_mm_ss_ff t =
     (case parse_digits 2 (take 2 t) of None \<Rightarrow> None | Some h \<Rightarrow>
      if length t = 2 then Some (h, 0, 0, 0)
      else if t ! 2 \<noteq> CHR '':'' then None
      else case parse_digits 2 (take 2 (drop 3 t)) of None \<Rightarrow> None | Some m \<Rightarrow>
        if length t = 5 then Some (h, m, 0, 0)
        else if t ! 5 \<noteq> CHR '':'' then None
        else case parse_digits 2 (take 2 (drop 6 t)) of None \<Rightarrow> None | Some s \<Rightarrow>
          if length t = 8 then Some (h, m, s, 0)
          else if t ! 8 \<noteq> CHR ''.'' then None
          else if length t = 12 then
            (case parse_digits 3 (drop 9 t) of None \<Rightarrow> None
             | Some f \<Rightarrow> Some (h, m, s, f * 1000))
          else if length t = 15 then
            (case parse_digits 6 (drop 9 t) of None \<Rightarrow> None
             | Some f \<Rightarrow> Some (h, m, s, f))
          else None)"

definition is_sign :: "char \<Rightarrow> bool" where
  "is_sign c = (c = CHR ''+'' \<or> c = CHR ''-'')"

text \<open>
  The offset, in microseconds: \<^verbatim>\<open>HH:MM\<close>, \<^verbatim>\<open>HH:MM:SS\<close> or \<^verbatim>\<open>HH:MM:SS.ffffff\<close> after
  the sign. \<^verbatim>\<open>timezone\<close> raises \<^verbatim>\<open>ValueError\<close> unless the offset is strictly between
  minus and plus 24 hours.
\<close>

definition parse_utcoffset :: "string \<Rightarrow> int option" where
  "parse_utcoffset z =
     (case z of [] \<Rightarrow> None
      | sg # tz \<Rightarrow>
          if length tz \<noteq> 5 \<and> length tz \<noteq> 8 \<and> length tz \<noteq> 15 then None
          else case parse_hh_mm_ss_ff tz of None \<Rightarrow> None
            | Some (h, m, s, f) \<Rightarrow>
                let us = ((h * 3600 + m * 60 + s) * 1000000 + f)
                in if 86400000000 \<le> us then None
                   else Some (if sg = CHR ''-'' then - int us else int us))"

definition parse_isoformat_time ::
  "string \<Rightarrow> (nat \<times> nat \<times> nat \<times> nat \<times> int option) option" where
  "parse_isoformat_time t =
     (let timestr = takeWhile (\<lambda>c. \<not> is_sign c) t;
          tzstr = dropWhile (\<lambda>c. \<not> is_sign c) t
      in case parse_hh_mm_ss_ff timestr of None \<Rightarrow> None
         | Some (h, m, s, f) \<Rightarrow>
             if tzstr = [] then Some (h, m, s, f, None)
             else case parse_utcoffset tzstr of None \<Rightarrow> None
               | Some off \<Rightarrow> Some (h, m, s, f, Some off))"

definition fromisoformat :: "string \<Rightarrow> pydatetime option" where
  "fromisoformat s =
     (case parse_isoformat_date (take 10 s) of None \<Rightarrow> None
      | Some d \<Rightarrow>
          (case (if length s = 10 then Some (0, 0, 0, 0, None)
                 else parse_isoformat_time (drop 11 s)) of
             None \<Rightarrow> None
           | Some (h, m, sec, f, tz) \<Rightarrow>
               if valid_date d \<and> h < 24 \<and> m < 60 \<and> sec < 60 then
                 Some \<lparr>dt_date = d, dt_hour = h, dt_minute = m, dt_second = sec,
                       dt_microsecond = f, dt_utcoffset = tz\<rparr>
               else None))"

text \<open>
  \<^verbatim>\<open>date.isoformat()\<close> is \<^verbatim>\<open>"%04d-%02d-%02d"\<close>. A \<^verbatim>\<open>date\<close> object has a year of at
  most four digits and a month and a day of at most two, so each field is printed
  with its fixed number of digits.
\<close>

definition digit_char :: "nat \<Rightarrow> char" where
  "digit_char n = char_of (48 + n mod 10)"

definition isoformat :: "pydate \<Rightarrow> string" where
  "isoformat d =
     [digit_char (year d div 1000), digit_char (year d div 100),
      digit_char (year d div 10), digit_char (year d), CHR ''-'',
      digit_char (month d div 10), digit_char (month d), CHR ''-'',
      digit_char (day d div 10), digit_char (day d)]"

section \<open>Validation\<close>

text \<open>\<^verbatim>\<open>parse_iso_date\<close>, lines 65 to 76.\<close>

definition parse_iso_date :: "pyval \<Rightarrow> error + pydate" where
  "parse_iso_date v =
     (if \<not> isinstance_str v then
        Inl (BadRequest ''date must be a string in ISO format (YYYY-MM-DD)'')
      else case fromisoformat (str_value v) of
          Some dt \<Rightarrow> Inr (dt_date dt)
        | None \<Rightarrow> Inl (BadRequest ''Invalid date format; expected ISO (YYYY-MM-DD)''))"

text \<open>\<^verbatim>\<open>dict.get(key)\<close>: the value, or \<^verbatim>\<open>None\<close> for a key that is not there.\<close>

definition dict_get :: "dict \<Rightarrow> string \<Rightarrow> pyval" where
  "dict_get d key = (case d key of None \<Rightarrow> PNone | Some v \<Rightarrow> v)"

definition allowed_types :: "string set" where
  "allowed_types = {''money'', ''food'', ''clothing'', ''other''}"

text \<open>
  The nested helpers \<^verbatim>\<open>get_str\<close> and \<^verbatim>\<open>get_int\<close>, lines 87 to 105. They close over
  \<^verbatim>\<open>payload\<close>, and \<^verbatim>\<open>required\<close> defaults to \<^verbatim>\<open>not partial\<close>; here both are arguments.
  The result \<open>PNone\<close> is the helper returning \<^verbatim>\<open>None\<close>.
\<close>

definition get_str :: "dict \<Rightarrow> bool \<Rightarrow> string \<Rightarrow> error + pyval" where
  "get_str payload required key =
     (let v = dict_get payload key
      in if v = PNone then
           (if required then Inl (BadRequest (''Missing required field: '' @ key))
            else Inr PNone)
         else if \<not> isinstance_str v \<or> strip (str_value v) = [] then
           Inl (BadRequest (key @ '' must be a non-empty string''))
         else Inr (PStr (strip (str_value v))))"

definition get_int :: "dict \<Rightarrow> bool \<Rightarrow> string \<Rightarrow> error + pyval" where
  "get_int payload required key =
     (let v = dict_get payload key
      in if v = PNone then
           (if required then Inl (BadRequest (''Missing required field: '' @ key))
            else Inr PNone)
         else if \<not> isinstance_int v \<or> int_value v < 1 then
           Inl (BadRequest (key @ '' must be a positive integer''))
         else Inr v)"

text \<open>
  \<^verbatim>\<open>validate_payload\<close>, lines 78 to 129. \<^verbatim>\<open>sorted(allowed_types)\<close> prints as
  \<^verbatim>\<open>['clothing', 'food', 'money', 'other']\<close>.
\<close>

definition donation_type_message :: string where
  "donation_type_message =
     ''donation_type must be one of ['' @
     [CHR 0x27] @ ''clothing'' @ [CHR 0x27] @ '', '' @
     [CHR 0x27] @ ''food'' @ [CHR 0x27] @ '', '' @
     [CHR 0x27] @ ''money'' @ [CHR 0x27] @ '', '' @
     [CHR 0x27] @ ''other'' @ [CHR 0x27] @ '']''"

definition validate_payload :: "dict \<Rightarrow> bool \<Rightarrow> error + dict" where
  "validate_payload payload partial =
     (case get_str payload (\<not> partial) ''donor_name'' of Inl e \<Rightarrow> Inl e
      | Inr donor_name \<Rightarrow>
     let out1 = (if donor_name \<noteq> PNone then Map.empty(''donor_name'' \<mapsto> donor_name)
                 else Map.empty)
     in case get_str payload (\<not> partial) ''donation_type'' of Inl e \<Rightarrow> Inl e
      | Inr donation_type \<Rightarrow>
     if donation_type \<noteq> PNone \<and> str_value donation_type \<notin> allowed_types then
       Inl (BadRequest donation_type_message)
     else
     let out2 = (if donation_type \<noteq> PNone then out1(''donation_type'' \<mapsto> donation_type)
                 else out1)
     in case get_int payload (\<not> partial) ''quantity_or_amount'' of Inl e \<Rightarrow> Inl e
      | Inr qty \<Rightarrow>
     let out3 = (if qty \<noteq> PNone then out2(''quantity_or_amount'' \<mapsto> qty) else out2);
         date_str = dict_get payload ''date''
     in if date_str = PNone \<and> \<not> partial then
          Inl (BadRequest ''Missing required field: date'')
        else if date_str \<noteq> PNone then
          (case parse_iso_date date_str of Inl e \<Rightarrow> Inl e
           | Inr d \<Rightarrow> Inr (out3(''date'' \<mapsto> PDate d)))
        else Inr out3)"


text \<open>
  The verdict on each field taken alone: the error that the lines of
  \<^verbatim>\<open>validate_payload\<close> for this field raise, whatever the other fields hold, or
  \<open>None\<close> when they raise nothing. \<open>first_error\<close> takes the first verdict that is an
  error.
\<close>

definition donor_name_error :: "dict \<Rightarrow> bool \<Rightarrow> error option" where
  "donor_name_error payload partial =
     (case get_str payload (\<not> partial) ''donor_name'' of
        Inl e \<Rightarrow> Some e | Inr v \<Rightarrow> None)"

definition donation_type_error :: "dict \<Rightarrow> bool \<Rightarrow> error option" where
  "donation_type_error payload partial =
     (case get_str payload (\<not> partial) ''donation_type'' of
        Inl e \<Rightarrow> Some e
      | Inr v \<Rightarrow>
          if v \<noteq> PNone \<and> str_value v \<notin> allowed_types
          then Some (BadRequest donation_type_message) else None)"

definition quantity_or_amount_error :: "dict \<Rightarrow> bool \<Rightarrow> error option" where
  "quantity_or_amount_error payload partial =
     (case get_int payload (\<not> partial) ''quantity_or_amount'' of
        Inl e \<Rightarrow> Some e | Inr v \<Rightarrow> None)"

definition date_error :: "dict \<Rightarrow> bool \<Rightarrow> error option" where
  "date_error payload partial =
     (if dict_get payload ''date'' = PNone then
        (if partial then None else Some (BadRequest ''Missing required field: date''))
      else case parse_iso_date (dict_get payload ''date'') of
          Inl e \<Rightarrow> Some e | Inr d \<Rightarrow> None)"

fun first_error :: "error option list \<Rightarrow> error option" where
  "first_error [] = None"
| "first_error (None # es) = first_error es"
| "first_error (Some e # es) = Some e"

section \<open>The table and the request handlers\<close>

text \<open>
  The model class \<^verbatim>\<open>Donation\<close>, lines 35 to 45: one field per column, typed as the
  column is. The two timestamps are readings of \<^verbatim>\<open>datetime.utcnow()\<close>, counted in
  microseconds.
\<close>

record Donation =
  id' :: int
  donor_name :: string
  donation_type :: string
  quantity_or_amount :: int
  date :: pydate
  created_at :: nat
  updated_at :: nat

text \<open>\<^verbatim>\<open>Donation.to_dict\<close>, lines 47 to 56.\<close>

definition to_dict :: "Donation \<Rightarrow> dict" where
  "to_dict r =
     [''id'' \<mapsto> PInt (id' r),
      ''donor_name'' \<mapsto> PStr (donor_name r),
      ''donation_type'' \<mapsto> PStr (donation_type r),
      ''quantity_or_amount'' \<mapsto> PInt (quantity_or_amount r),
      ''date'' \<mapsto> PStr (isoformat (date r))]"

text \<open>
  The persisted state is the table \<^verbatim>\<open>donations\<close>. \<open>log\<close> records every call the
  handlers make on \<^verbatim>\<open>Donation.query\<close> and \<^verbatim>\<open>db.session\<close>, in order, so that a
  statement can say that a handler did not touch the store.
\<close>

datatype db_op = Query_get int | Session_add | Session_delete int | Session_commit

record db =
  rows :: "Donation list"
  log :: "db_op list"

definition empty_db :: db where
  "empty_db = \<lparr>rows = [], log = []\<rparr>"

text \<open>
  An SQLite \<^verbatim>\<open>INTEGER\<close> is a signed integer of 64 bits, and a Python \<^verbatim>\<open>int\<close> has no
  bound. The driver raises \<^verbatim>\<open>OverflowError\<close> when a statement is given an \<^verbatim>\<open>int\<close>
  outside the 64 bits as a parameter. The handlers catch nothing, so the request is
  answered with status 500 and the statement is never run: nothing is stored. This
  happens in \<^verbatim>\<open>Donation.query.get\<close> for the id of the route, which the converter
  \<^verbatim>\<open>int\<close> of the route reads from any run of digits, and in \<^verbatim>\<open>db.session.commit\<close>
  for a \<open>quantity_or_amount\<close>, on which \<^verbatim>\<open>get_int\<close> puts no upper bound.
\<close>

definition max_rowid :: int where
  "max_rowid = 9223372036854775807"

definition sqlite_integer :: "int \<Rightarrow> bool" where
  "sqlite_integer n = (- max_rowid - 1 \<le> n \<and> n \<le> max_rowid)"

definition overflow_error :: error where
  "overflow_error =
     InternalServerError ''OverflowError: Python int too large to convert to SQLite INTEGER''"

text \<open>
  The column \<^verbatim>\<open>id\<close> is declared \<^verbatim>\<open>db.Column(db.Integer, primary_key=True)\<close> on an
  SQLite database. SQLAlchemy emits \<^verbatim>\<open>INTEGER PRIMARY KEY\<close> without
  \<^verbatim>\<open>AUTOINCREMENT\<close> for it, so the column is SQLite's rowid, and an insert that gives
  no id gets 1 in an empty table and otherwise one more than the largest rowid in
  the table. When the largest rowid is the largest 64-bit integer, SQLite tries
  random positive candidates and fails with \<^verbatim>\<open>SQLITE_FULL\<close> when none of them is
  free; the candidates it draws are the argument \<open>cands\<close>.
\<close>

fun largest :: "int list \<Rightarrow> int" where
  "largest [] = 0"
| "largest [x] = x"
| "largest (x # y # ys) = max x (largest (y # ys))"

definition new_rowid :: "int list \<Rightarrow> int list \<Rightarrow> int option" where
  "new_rowid ids cands =
     (if ids = [] then Some 1
      else if largest ids < max_rowid then Some (largest ids + 1)
      else find (\<lambda>c. 1 \<le> c \<and> c \<le> max_rowid \<and> c \<notin> set ids) cands)"

text \<open>
  \<^verbatim>\<open>Donation.query.get(donation_id)\<close>: the row with this primary key, or \<^verbatim>\<open>None\<close>;
  \<^verbatim>\<open>OverflowError\<close> for an id that is no SQLite integer.
\<close>

definition query_get :: "db \<Rightarrow> int \<Rightarrow> error + Donation option" where
  "query_get st i =
     (if sqlite_integer i then Inr (find (\<lambda>r. id' r = i) (rows st))
      else Inl overflow_error)"

text \<open>
  The request, as the handlers read it: \<^verbatim>\<open>request.is_json\<close> and the value that
  \<^verbatim>\<open>request.get_json()\<close> returns. The first thing \<^verbatim>\<open>validate_payload\<close> does with the
  payload is \<^verbatim>\<open>payload.get\<close> (line 88), which raises \<^verbatim>\<open>AttributeError\<close> on a decoded
  body that is not a \<^verbatim>\<open>dict\<close>.
\<close>

record request =
  is_json :: bool
  get_json :: pyval

fun payload_dict :: "pyval \<Rightarrow> error + dict" where
  "payload_dict (PDict kvs) = Inr (map_of kvs)"
| "payload_dict v = Inl (InternalServerError ''AttributeError'')"

text \<open>\<^verbatim>\<open>data[key]\<close> raises \<^verbatim>\<open>KeyError\<close> for a key that is not there.\<close>

definition dict_item :: "dict \<Rightarrow> string \<Rightarrow> error + pyval" where
  "dict_item d key =
     (case d key of None \<Rightarrow> Inl (InternalServerError ''KeyError'') | Some v \<Rightarrow> Inr v)"

text \<open>The value a \<^verbatim>\<open>Date\<close> column takes from a \<^verbatim>\<open>datetime.date\<close>.\<close>

fun date_value :: "pyval \<Rightarrow> pydate" where
  "date_value (PDate d) = d"
| "date_value v = \<lparr>year = 1, month = 1, day = 1\<rparr>"

text \<open>A response: the JSON body, if there is one, and the status code.\<close>

type_synonym response = "dict option \<times> nat"

text \<open>
  \<^verbatim>\<open>create_donation\<close>, lines 142 to 160. \<open>now1\<close> and \<open>now2\<close> are the two readings of
  \<^verbatim>\<open>datetime.utcnow()\<close> on lines 154 and 155. The commit binds the columns of the new
  row to the \<^verbatim>\<open>INSERT\<close> before SQLite runs it and chooses the rowid.
\<close>

definition create_donation ::
  "db \<Rightarrow> nat \<Rightarrow> nat \<Rightarrow> int list \<Rightarrow> request \<Rightarrow> (error + response) \<times> db" where
  "create_donation st now1 now2 cands req =
     (if \<not> is_json req then (Inl (BadRequest ''Request must be application/json''), st)
      else case payload_dict (get_json req) of Inl e \<Rightarrow> (Inl e, st) | Inr payload \<Rightarrow>
        case validate_payload payload False of Inl e \<Rightarrow> (Inl e, st) | Inr data \<Rightarrow>
        case dict_item data ''donor_name'' of Inl e \<Rightarrow> (Inl e, st) | Inr dn \<Rightarrow>
        case dict_item data ''donation_type'' of Inl e \<Rightarrow> (Inl e, st) | Inr dt \<Rightarrow>
        case dict_item data ''quantity_or_amount'' of Inl e \<Rightarrow> (Inl e, st) | Inr q \<Rightarrow>
        case dict_item data ''date'' of Inl e \<Rightarrow> (Inl e, st) | Inr d \<Rightarrow>
        let st1 = st\<lparr>log := log st @ [Session_add, Session_commit]\<rparr>
        in if \<not> sqlite_integer (int_value q) then (Inl overflow_error, st1)
           else case new_rowid (map id' (rows st)) cands of
             None \<Rightarrow> (Inl (InternalServerError ''database or disk is full''), st1)
           | Some i \<Rightarrow>
               let row = \<lparr>id' = i, donor_name = str_value dn, donation_type = str_value dt,
                          quantity_or_amount = int_value q, date = date_value d,
                          created_at = now1, updated_at = now2\<rparr>
               in (Inr (Some (to_dict row), 201), st1\<lparr>rows := rows st @ [row]\<rparr>))"

text \<open>
  \<^verbatim>\<open>update_donation\<close>, lines 162 to 182. \<open>now\<close> is the reading of
  \<^verbatim>\<open>datetime.utcnow()\<close> on line 179. \<open>apply_fields\<close> is the four assignments of lines
  174 to 177. The commit binds the assigned \<open>quantity_or_amount\<close> to the
  \<^verbatim>\<open>UPDATE\<close>; \<open>quantity_overflows\<close> says that this raises \<^verbatim>\<open>OverflowError\<close>.
\<close>

definition apply_fields :: "dict \<Rightarrow> Donation \<Rightarrow> Donation" where
  "apply_fields data row =
     (let r1 = (case data ''donor_name'' of None \<Rightarrow> row
                | Some v \<Rightarrow> row\<lparr>donor_name := str_value v\<rparr>);
          r2 = (case data ''donation_type'' of None \<Rightarrow> r1
                | Some v \<Rightarrow> r1\<lparr>donation_type := str_value v\<rparr>);
          r3 = (case data ''quantity_or_amount'' of None \<Rightarrow> r2
                | Some v \<Rightarrow> r2\<lparr>quantity_or_amount := int_value v\<rparr>);
          r4 = (case data ''date'' of None \<Rightarrow> r3
                | Some v \<Rightarrow> r3\<lparr>date := date_value v\<rparr>)
      in r4)"

definition quantity_overflows :: "dict \<Rightarrow> bool" where
  "quantity_overflows data =
     (case data ''quantity_or_amount'' of None \<Rightarrow> False
      | Some v \<Rightarrow> \<not> sqlite_integer (int_value v))"

definition update_donation ::
  "db \<Rightarrow> nat \<Rightarrow> int \<Rightarrow> request \<Rightarrow> (error + response) \<times> db" where
  "update_donation st now donation_id req =
     (if \<not> is_json req then (Inl (BadRequest ''Request must be application/json''), st)
      else case payload_dict (get_json req) of Inl e \<Rightarrow> (Inl e, st) | Inr payload \<Rightarrow>
        case validate_payload payload True of Inl e \<Rightarrow> (Inl e, st) | Inr data \<Rightarrow>
        let st1 = st\<lparr>log := log st @ [Query_get donation_id]\<rparr>
        in case query_get st donation_id of
             Inl e \<Rightarrow> (Inl e, st1)
           | Inr found \<Rightarrow>
              (case found of
                 None \<Rightarrow> (Inl (NotFound ''Donation not found''), st1)
               | Some row \<Rightarrow>
                   let row' = (apply_fields data row)\<lparr>updated_at := now\<rparr>;
                       st2 = st1\<lparr>log := log st1 @ [Session_commit]\<rparr>
                   in if quantity_overflows data then (Inl overflow_error, st2)
                      else (Inr (Some (to_dict row'), 200),
                            st2\<lparr>rows := map (\<lambda>r. if id' r = donation_id then row' else r)
                                            (rows st)\<rparr>)))"

text \<open>\<^verbatim>\<open>delete_donation\<close>, lines 184 to 191.\<close>

definition delete_donation :: "db \<Rightarrow> int \<Rightarrow> (error + response) \<times> db" where
  "delete_donation st donation_id =
     (let st1 = st\<lparr>log := log st @ [Query_get donation_id]\<rparr>
      in case query_get st donation_id of
           Inl e \<Rightarrow> (Inl e, st1)
         | Inr found \<Rightarrow>
            (case found of
               None \<Rightarrow> (Inl (NotFound ''Donation not found''), st1)
             | Some row \<Rightarrow>
                 (Inr (None, 204),
                  st1\<lparr>rows := filter (\<lambda>r. id' r \<noteq> donation_id) (rows st),
                      log := log st1 @ [Session_delete donation_id, Session_commit]\<rparr>)))"



section \<open>What a successful validation returns\<close>

lemma isinstance_str_iff: "isinstance_str v \<longleftrightarrow> (\<exists>s. v = PStr s)"
  by (cases v) auto

lemma isinstance_int_iff: "isinstance_int v \<longleftrightarrow> (\<exists>n. v = PInt n) \<or> (\<exists>b. v = PBool b)"
  by (cases v) auto



lemma parse_iso_date_Inr:
  "parse_iso_date v = Inr d \<longleftrightarrow> (\<exists>s dt. v = PStr s \<and> fromisoformat s = Some dt \<and> d = dt_date dt)"
  by (auto simp: parse_iso_date_def isinstance_str_iff split: option.splits)




section \<open>Facts about the table\<close>


lemma query_get_overflow: "\<not> sqlite_integer i \<Longrightarrow> query_get st i = Inl overflow_error"
  by (simp add: query_get_def)

lemma query_get_Inl_iff: "query_get st i = Inl e \<longleftrightarrow> \<not> sqlite_integer i \<and> e = overflow_error"
  by (auto simp: query_get_def)





lemma apply_fields_id [simp]: "id' (apply_fields data row) = id' row"
  by (simp add: apply_fields_def Let_def split: option.splits)

lemma apply_fields_created_at [simp]: "created_at (apply_fields data row) = created_at row"
  by (simp add: apply_fields_def Let_def split: option.splits)

lemma apply_fields_updated_at [simp]: "updated_at (apply_fields data row) = updated_at row"
  by (simp add: apply_fields_def Let_def split: option.splits)







lemma update_donation_error_keeps_rows:
  assumes "fst (update_donation st now i req) = Inl e"
  shows "rows (snd (update_donation st now i req)) = rows st"
  using assms
  by (auto simp: update_donation_def Let_def split: sum.splits option.splits if_splits)











section \<open>Claims about the handlers\<close>




lemma validate_payload_empty: "validate_payload Map.empty True = Inr Map.empty"
  by (simp add: validate_payload_def get_str_def get_int_def dict_get_def)









text \<open>
  C5. A request that is turned down before the lookup or the insert (its body is not
  JSON, is not a \<^verbatim>\<open>dict\<close>, or fails \<^verbatim>\<open>validate_payload\<close>) leaves the table and the
  log of store calls exactly as they were, in \<^verbatim>\<open>create_donation\<close> and in
  \<^verbatim>\<open>update_donation\<close>, and the handler answers with the error of the validation.
  Whenever one of the three handlers answers with an error, the rows of the table
  are unchanged; a successful create has appended the record it returns.
\<close>

theorem invalid_payload_leaves_store_untouched:
  "(is_json req \<and> payload_dict (get_json req) = Inr payload \<and>
      validate_payload payload False = Inl e \<longrightarrow>
        create_donation st now1 now2 cands req = (Inl e, st)) \<and>
   (is_json req \<and> payload_dict (get_json req) = Inr payload \<and>
      validate_payload payload True = Inl e \<longrightarrow>
        update_donation st now i req = (Inl e, st)) \<and>
   (\<not> is_json req \<or> (\<exists>e'. payload_dict (get_json req) = Inl e') \<longrightarrow>
      snd (create_donation st now1 now2 cands req) = st \<and>
      snd (update_donation st now i req) = st \<and>
      (\<exists>e'. fst (create_donation st now1 now2 cands req) = Inl e') \<and>
      (\<exists>e'. fst (update_donation st now i req) = Inl e')) \<and>
   ((\<exists>e'. fst (create_donation st now1 now2 cands req) = Inl e') \<longrightarrow>
      rows (snd (create_donation st now1 now2 cands req)) = rows st) \<and>
   ((\<exists>e'. fst (update_donation st now i req) = Inl e') \<longrightarrow>
      rows (snd (update_donation st now i req)) = rows st) \<and>
   ((\<exists>e'. fst (delete_donation st i) = Inl e') \<longrightarrow>
      rows (snd (delete_donation st i)) = rows st) \<and>
   (\<forall>body code. fst (create_donation st now1 now2 cands req) = Inr (body, code) \<longrightarrow>
      (\<exists>row. rows (snd (create_donation st now1 now2 cands req)) = rows st @ [row] \<and>
             body = Some (to_dict row) \<and> code = 201))"
proof -
  have c1: "is_json req \<and> payload_dict (get_json req) = Inr payload \<and>
      validate_payload payload False = Inl e \<longrightarrow>
        create_donation st now1 now2 cands req = (Inl e, st)"
    by (simp add: create_donation_def)
  have u1: "is_json req \<and> payload_dict (get_json req) = Inr payload \<and>
      validate_payload payload True = Inl e \<longrightarrow>
        update_donation st now i req = (Inl e, st)"
    by (simp add: update_donation_def)
  have nj: "\<not> is_json req \<or> (\<exists>e'. payload_dict (get_json req) = Inl e') \<longrightarrow>
      snd (create_donation st now1 now2 cands req) = st \<and>
      snd (update_donation st now i req) = st \<and>
      (\<exists>e'. fst (create_donation st now1 now2 cands req) = Inl e') \<and>
      (\<exists>e'. fst (update_donation st now i req) = Inl e')"
    by (auto simp: create_donation_def update_donation_def)
  have ce: "(\<exists>e'. fst (create_donation st now1 now2 cands req) = Inl e') \<longrightarrow>
      rows (snd (create_donation st now1 now2 cands req)) = rows st"
    by (auto simp: create_donation_def Let_def split: sum.splits option.splits)
  have ue: "(\<exists>e'. fst (update_donation st now i req) = Inl e') \<longrightarrow>
      rows (snd (update_donation st now i req)) = rows st"
    by (auto simp: update_donation_def Let_def split: sum.splits option.splits)
  have de: "(\<exists>e'. fst (delete_donation st i) = Inl e') \<longrightarrow>
      rows (snd (delete_donation st i)) = rows st"
    by (auto simp: delete_donation_def Let_def split: sum.splits option.splits)
  have cs: "\<forall>body code. fst (create_donation st now1 now2 cands req) = Inr (body, code) \<longrightarrow>
      (\<exists>row. rows (snd (create_donation st now1 now2 cands req)) = rows st @ [row] \<and>
             body = Some (to_dict row) \<and> code = 201)"
    by (auto simp: create_donation_def Let_def split: sum.splits option.splits)
  show ?thesis using c1 u1 nj ce ue de cs by blast
qed

theorem invalid_payload_leaves_store_untouched_witness:
  "validate_payload (map_of [(''donor_name'', PStr ''Bob''), (''donation_type'', PStr ''clothes''),
       (''quantity_or_amount'', PInt 2), (''date'', PStr ''2024-01-15'')]) False =
     Inl (BadRequest donation_type_message) \<and>
   create_donation empty_db 7 8 []
     \<lparr>is_json = True, get_json = PDict [(''donor_name'', PStr ''Bob''),
        (''donation_type'', PStr ''clothes''), (''quantity_or_amount'', PInt 2),
        (''date'', PStr ''2024-01-15'')]\<rparr> =
     (Inl (BadRequest donation_type_message), empty_db)"
proof -
  let ?kvs = "[(''donor_name'', PStr ''Bob''), (''donation_type'', PStr ''clothes''),
       (''quantity_or_amount'', PInt 2), (''date'', PStr ''2024-01-15'')]"
  have v: "validate_payload (map_of ?kvs) False = Inl (BadRequest donation_type_message)"
    by (simp add: validate_payload_def get_str_def dict_get_def strip_def isspace_def
        allowed_types_def)
  have j: "is_json \<lparr>is_json = True, get_json = PDict ?kvs\<rparr>" by simp
  have p: "payload_dict (get_json \<lparr>is_json = True, get_json = PDict ?kvs\<rparr>) = Inr (map_of ?kvs)"
    by simp
  show ?thesis
    using invalid_payload_leaves_store_untouched
      [of "\<lparr>is_json = True, get_json = PDict ?kvs\<rparr>" "map_of ?kvs"
          "BadRequest donation_type_message" empty_db 7 8 "[]" 0 0]
      v j p
    by blast
qed

section \<open>Claims about the validation\<close>














lemma query_get_log [simp]: "query_get (st\<lparr>log := l\<rparr>) i = query_get st i"
  by (simp add: query_get_def)





lemma strip_Alice: "strip ''Alice'' = ''Alice''"
  by code_simp






lemma validate_payload_Inl_iff:
  "validate_payload p partial = Inl e \<longleftrightarrow>
     first_error [donor_name_error p partial, donation_type_error p partial,
                  quantity_or_amount_error p partial, date_error p partial] = Some e"
proof (cases "get_str p (\<not> partial) ''donor_name''")
  case (Inl e1)
  then show ?thesis by (simp add: validate_payload_def donor_name_error_def)
next
  case dn: (Inr dn)
  show ?thesis
  proof (cases "get_str p (\<not> partial) ''donation_type''")
    case (Inl e2)
    then show ?thesis
      using dn by (simp add: validate_payload_def donor_name_error_def donation_type_error_def)
  next
    case dt: (Inr dt)
    show ?thesis
    proof (cases "dt \<noteq> PNone \<and> str_value dt \<notin> allowed_types")
      case True
      then show ?thesis
        using dn dt
        by (simp add: validate_payload_def donor_name_error_def donation_type_error_def)
    next
      case al: False
      show ?thesis
      proof (cases "get_int p (\<not> partial) ''quantity_or_amount''")
        case (Inl e3)
        then show ?thesis
          using dn dt al
          by (auto simp: validate_payload_def donor_name_error_def donation_type_error_def
              quantity_or_amount_error_def Let_def)
      next
        case q: (Inr q)
        show ?thesis
        proof (cases "parse_iso_date (dict_get p ''date'')")
          case (Inl e4)
          then show ?thesis
            using dn dt al q
            by (auto simp: validate_payload_def donor_name_error_def donation_type_error_def
                quantity_or_amount_error_def date_error_def Let_def)
        next
          case (Inr d)
          then show ?thesis
            using dn dt al q
            by (auto simp: validate_payload_def donor_name_error_def donation_type_error_def
                quantity_or_amount_error_def date_error_def Let_def)
        qed
      qed
    qed
  qed
qed


text \<open>
  C8. \<^verbatim>\<open>validate_payload\<close> fails exactly when one of the four fields, taken alone, is
  in error, and the error it raises is the one of the first such field in the order
  \<open>donor_name\<close>, \<open>donation_type\<close>, \<open>quantity_or_amount\<close>, \<open>date\<close>: a single error,
  whatever the later fields hold.
\<close>

theorem validation_reports_first_invalid_field:
  "(validate_payload p partial = Inl e \<longleftrightarrow>
      first_error [donor_name_error p partial, donation_type_error p partial,
                   quantity_or_amount_error p partial, date_error p partial] = Some e) \<and>
   (donor_name_error p partial = Some e \<longrightarrow> validate_payload p partial = Inl e) \<and>
   (donor_name_error p partial = None \<and> donation_type_error p partial = Some e \<longrightarrow>
      validate_payload p partial = Inl e) \<and>
   (donor_name_error p partial = None \<and> donation_type_error p partial = None \<and>
    quantity_or_amount_error p partial = Some e \<longrightarrow> validate_payload p partial = Inl e) \<and>
   (donor_name_error p partial = None \<and> donation_type_error p partial = None \<and>
    quantity_or_amount_error p partial = None \<and> date_error p partial = Some e \<longrightarrow>
      validate_payload p partial = Inl e) \<and>
   (donor_name_error p partial = None \<and> donation_type_error p partial = None \<and>
    quantity_or_amount_error p partial = None \<and> date_error p partial = None \<longrightarrow>
      (\<exists>out. validate_payload p partial = Inr out))"
proof -
  have ok: "\<exists>out. validate_payload p partial = Inr out"
    if "donor_name_error p partial = None" "donation_type_error p partial = None"
      "quantity_or_amount_error p partial = None" "date_error p partial = None"
  proof (cases "validate_payload p partial")
    case (Inl e')
    with that show ?thesis by (simp add: validate_payload_Inl_iff)
  next
    case (Inr out)
    then show ?thesis by blast
  qed
  show ?thesis
    using ok by (auto simp: validate_payload_Inl_iff)
qed

theorem validation_reports_first_invalid_field_witness:
  "donor_name_error
     (map_of [(''donor_name'', PStr ''Alice''), (''donation_type'', PStr ''clothes''),
              (''quantity_or_amount'', PInt 0), (''date'', PInt 20240115)]) False = None \<and>
   donation_type_error
     (map_of [(''donor_name'', PStr ''Alice''), (''donation_type'', PStr ''clothes''),
              (''quantity_or_amount'', PInt 0), (''date'', PInt 20240115)]) False =
     Some (BadRequest donation_type_message) \<and>
   quantity_or_amount_error
     (map_of [(''donor_name'', PStr ''Alice''), (''donation_type'', PStr ''clothes''),
              (''quantity_or_amount'', PInt 0), (''date'', PInt 20240115)]) False =
     Some (BadRequest ''quantity_or_amount must be a positive integer'') \<and>
   date_error
     (map_of [(''donor_name'', PStr ''Alice''), (''donation_type'', PStr ''clothes''),
              (''quantity_or_amount'', PInt 0), (''date'', PInt 20240115)]) False =
     Some (BadRequest ''date must be a string in ISO format (YYYY-MM-DD)'') \<and>
   validate_payload
     (map_of [(''donor_name'', PStr ''Alice''), (''donation_type'', PStr ''clothes''),
              (''quantity_or_amount'', PInt 0), (''date'', PInt 20240115)]) False =
     Inl (BadRequest donation_type_message)"
proof -
  let ?p = "map_of [(''donor_name'', PStr ''Alice''), (''donation_type'', PStr ''clothes''),
              (''quantity_or_amount'', PInt 0), (''date'', PInt 20240115)]"
  have s: "strip ''clothes'' = ''clothes''" by code_simp
  have 1: "donor_name_error ?p False = None"
    by (simp add: donor_name_error_def get_str_def dict_get_def strip_Alice)
  have 2: "donation_type_error ?p False = Some (BadRequest donation_type_message)"
    by (simp add: donation_type_error_def get_str_def dict_get_def s allowed_types_def)
  have 3: "quantity_or_amount_error ?p False =
      Some (BadRequest ''quantity_or_amount must be a positive integer'')"
    by (simp add: quantity_or_amount_error_def get_int_def dict_get_def)
  have 4: "date_error ?p False =
      Some (BadRequest ''date must be a string in ISO format (YYYY-MM-DD)'')"
    by (simp add: date_error_def dict_get_def parse_iso_date_def)
  from validation_reports_first_invalid_field [of ?p False "BadRequest donation_type_message"] 1 2
  have "validate_payload ?p False = Inl (BadRequest donation_type_message)" by blast
  then show ?thesis using 1 2 3 4 by blast
qed

end
